theory Spec2Isabelle
  imports Main
begin

section \<open>JavaScript values\<close>

text \<open>
  The values the viewer handles: bundle stats (parsed JSON), what the analyzer returns,
  and option values. Numbers are restricted to the integers and NaN; functions, symbols
  and big integers are left out. An object is the list of its own enumerable properties
  in the order \<^verbatim>\<open>Object.values\<close> visits them (a real object has distinct keys).
\<close>

datatype jsval =
    JUndefined
  | JNull
  | JBool bool
  | JNum int
  | JNaN
  | JStr string
  | JArr "jsval list"
  | JObj "(string \<times> jsval) list"

text \<open>Truthiness, as \<^verbatim>\<open>if (v)\<close>, \<^verbatim>\<open>!v\<close>, \<^verbatim>\<open>a && b\<close> and \<^verbatim>\<open>a || b\<close> test it.\<close>

fun truthy :: "jsval \<Rightarrow> bool" where
  "truthy JUndefined = False"
| "truthy JNull = False"
| "truthy (JBool b) = b"
| "truthy (JNum n) = (n \<noteq> 0)"
| "truthy JNaN = False"
| "truthy (JStr s) = (s \<noteq> [])"
| "truthy (JArr xs) = True"
| "truthy (JObj kvs) = True"

text \<open>\<^verbatim>\<open>Array.isArray\<close>.\<close>

fun isArray :: "jsval \<Rightarrow> bool" where
  "isArray (JArr xs) = True"
| "isArray v = False"

fun nullish :: "jsval \<Rightarrow> bool" where
  "nullish JUndefined = True"
| "nullish JNull = True"
| "nullish v = False"

section \<open>Errors as values\<close>

text \<open>
  What a call can throw past its caller: the runtime's TypeError (a property read on
  null or undefined, a path argument that is not a string) and a system error of the
  file system or the network, with its code.
\<close>

datatype js_error = TypeError | SystemError string

datatype 'a outcome = Returns 'a | Throws js_error

text \<open>
  The promise of an asynchronous call: settled with what the call returned or threw, or
  never settled.
\<close>

datatype 'a promise = Settled "'a outcome" | Unsettled

text \<open>\<^verbatim>\<open>Array.prototype.map\<close> with a callback that may throw: left to right, the first
  throw ends the loop.\<close>

fun map_outcome :: "('a \<Rightarrow> 'b outcome) \<Rightarrow> 'a list \<Rightarrow> 'b list outcome" where
  "map_outcome f [] = Returns []"
| "map_outcome f (x # xs) =
     (case f x of
        Throws e \<Rightarrow> Throws e
      | Returns y \<Rightarrow>
          (case map_outcome f xs of
             Throws e \<Rightarrow> Throws e
           | Returns ys \<Rightarrow> Returns (y # ys)))"

text \<open>
  The property read \<^verbatim>\<open>v.k\<close>, for a name \<open>k\<close> that is neither an array index nor
  found on a built-in prototype (the viewer reads \<^verbatim>\<open>entrypoints\<close> and \<^verbatim>\<open>name\<close>):
  null and undefined throw, an object gives its own property or undefined, every other
  value gives undefined.
\<close>

definition own_prop :: "(string \<times> jsval) list \<Rightarrow> string \<Rightarrow> jsval" where
  "own_prop kvs k = (case map_of kvs k of None \<Rightarrow> JUndefined | Some v \<Rightarrow> v)"

fun read_prop :: "jsval \<Rightarrow> string \<Rightarrow> jsval" where
  "read_prop (JObj kvs) k = own_prop kvs k"
| "read_prop v k = JUndefined"

definition get_prop :: "jsval \<Rightarrow> string \<Rightarrow> jsval outcome" where
  "get_prop v k = (if nullish v then Throws TypeError else Returns (read_prop v k))"

text \<open>\<^verbatim>\<open>Object.values\<close>: the own enumerable property values, in order.\<close>

fun Object_values :: "jsval \<Rightarrow> jsval list outcome" where
  "Object_values JUndefined = Throws TypeError"
| "Object_values JNull = Throws TypeError"
| "Object_values (JObj kvs) = Returns (map snd kvs)"
| "Object_values (JArr xs) = Returns xs"
| "Object_values (JStr s) = Returns (map (\<lambda>c. JStr [c]) s)"
| "Object_values v = Returns []"

section \<open>The pure helpers of viewer.js\<close>

text \<open>A report title is a value, or a function of no argument (given by what it returns).\<close>

datatype report_title = TitleValue jsval | TitleFunction jsval

fun resolveTitle :: "report_title \<Rightarrow> jsval" where
  "resolveTitle (TitleFunction r) = r"
| "resolveTitle (TitleValue v) = v"

definition resolveDefaultSizes :: "jsval \<Rightarrow> jsval \<Rightarrow> jsval" where
  "resolveDefaultSizes defaultSizes compressionAlgorithm =
     (if defaultSizes \<in> set [JStr ''gzip'', JStr ''brotli''] then compressionAlgorithm
      else defaultSizes)"

definition getEntrypoints :: "jsval \<Rightarrow> jsval outcome" where
  "getEntrypoints bundleStats =
     (if bundleStats = JNull \<or> bundleStats = JUndefined then Returns (JArr [])
      else
        (case get_prop bundleStats ''entrypoints'' of
           Throws e \<Rightarrow> Throws e
         | Returns entrypoints \<Rightarrow>
             if \<not> truthy entrypoints then Returns (JArr [])
             else
               (case Object_values entrypoints of
                  Throws e \<Rightarrow> Throws e
                | Returns vs \<Rightarrow>
                    (case map_outcome (\<lambda>entrypoint. get_prop entrypoint ''name'') vs of
                       Throws e \<Rightarrow> Throws e
                     | Returns names \<Rightarrow> Returns (JArr names)))))"

section \<open>Node's path module, POSIX flavour\<close>

text \<open>
  \<^verbatim>\<open>path.resolve\<close>, \<^verbatim>\<open>path.join\<close> and \<^verbatim>\<open>path.dirname\<close> belong to the runtime; they are
  written here as Node's POSIX implementation computes them, on strings split at the
  slash.
\<close>

fun split_slash :: "string \<Rightarrow> string list" where
  "split_slash [] = [[]]"
| "split_slash (c # cs) =
     (if c = CHR ''/'' then [] # split_slash cs
      else (case split_slash cs of
              [] \<Rightarrow> [[c]]
            | s # ss \<Rightarrow> (c # s) # ss))"

fun join_slash :: "string list \<Rightarrow> string" where
  "join_slash [] = []"
| "join_slash [s] = s"
| "join_slash (s # t # ss) = s @ CHR ''/'' # join_slash (t # ss)"

text \<open>
  One segment of \<^verbatim>\<open>normalizeString\<close>, the kept segments being a stack (last one first):
  an empty segment and \<^verbatim>\<open>.\<close> are dropped, \<^verbatim>\<open>..\<close> removes the last kept segment, or is
  kept itself when nothing can be removed and the path may rise above its start.
\<close>

definition normalize_step :: "bool \<Rightarrow> string list \<Rightarrow> string \<Rightarrow> string list" where
  "normalize_step allowAboveRoot kept seg =
     (if seg = [] \<or> seg = ''.'' then kept
      else if seg = ''..'' then
        (case kept of
           [] \<Rightarrow> if allowAboveRoot then [''..''] else []
         | k # ks \<Rightarrow>
             if k = ''..'' then (if allowAboveRoot then ''..'' # kept else kept)
             else ks)
      else seg # kept)"

definition normalizeString :: "string \<Rightarrow> bool \<Rightarrow> string" where
  "normalizeString path allowAboveRoot =
     join_slash (rev (foldl (normalize_step allowAboveRoot) [] (split_slash path)))"

text \<open>
  The loop of \<^verbatim>\<open>path.resolve\<close>: the arguments from the last to the first, then the
  working directory, until an absolute one has been prepended; empty ones are skipped.
\<close>

fun resolve_loop :: "string list \<Rightarrow> string \<Rightarrow> string \<times> bool" where
  "resolve_loop [] resolvedPath = (resolvedPath, False)"
| "resolve_loop (p # ps) resolvedPath =
     (if p = [] then resolve_loop ps resolvedPath
      else if hd p = CHR ''/'' then (p @ CHR ''/'' # resolvedPath, True)
      else resolve_loop ps (p @ CHR ''/'' # resolvedPath))"

definition path_resolve :: "string \<Rightarrow> string list \<Rightarrow> string" where
  "path_resolve cwd args =
     (case resolve_loop (rev args @ [cwd]) [] of
        (resolvedPath, resolvedAbsolute) \<Rightarrow>
          (let normalized = normalizeString resolvedPath (\<not> resolvedAbsolute)
           in if resolvedAbsolute then CHR ''/'' # normalized
              else if normalized \<noteq> [] then normalized
              else ''.''))"

definition path_normalize :: "string \<Rightarrow> string" where
  "path_normalize path =
     (if path = [] then ''.''
      else
        (let isAbsolute = (hd path = CHR ''/'');
             trailingSeparator = (last path = CHR ''/'');
             normalized = normalizeString path (\<not> isAbsolute)
         in if normalized = [] then
              (if isAbsolute then ''/'' else if trailingSeparator then ''./'' else ''.'')
            else
              (let withSeparator =
                     (if trailingSeparator then normalized @ ''/'' else normalized)
               in if isAbsolute then CHR ''/'' # withSeparator else withSeparator)))"

definition path_join :: "string list \<Rightarrow> string" where
  "path_join args =
     (case filter (\<lambda>a. a \<noteq> []) args of
        [] \<Rightarrow> ''.''
      | a # as \<Rightarrow> path_normalize (join_slash (a # as)))"

text \<open>
  \<^verbatim>\<open>path.dirname\<close>: scanning from the end down to index 1, the trailing slashes are
  passed, then the last segment, and the path is cut before the slash that ends the
  scan (\<open>upto_slash\<close> is the text between index 1 and that slash, reversed).
\<close>

definition path_dirname :: "string \<Rightarrow> string" where
  "path_dirname path =
     (case path of
        [] \<Rightarrow> ''.''
      | c # cs \<Rightarrow>
          (let hasRoot = (c = CHR ''/'');
               upto_slash =
                 dropWhile (\<lambda>x. x \<noteq> CHR ''/'') (dropWhile (\<lambda>x. x = CHR ''/'') (rev cs))
           in (case upto_slash of
                 [] \<Rightarrow> if hasRoot then ''/'' else ''.''
               | s # front \<Rightarrow>
                   if hasRoot \<and> front = [] then ''//''
                   else c # rev front)))"

section \<open>The world outside: effects, files, collaborators\<close>

datatype level = LError | LDebug | LInfo

datatype ready_state = CONNECTING | OPEN | CLOSING | CLOSED

text \<open>
  Every effect of the viewer on the outside, in the order it happens: a call of a logger
  method, a directory created with its missing parents, a file written, a URL handed to
  the browser opener, the HTTP server created, bound and given its WebSocket server, the
  server's chart data replaced, a text frame sent to the client at a position of
  \<^verbatim>\<open>wss.clients\<close>, and an error thrown inside a callback of the event loop or emitted
  with no listener: it reaches no caller, and ends the process unless the process
  handles it.
\<close>

datatype effect =
    Log level jsval
  | Mkdir string
  | WriteFile string string
  | OpenUrl string
  | HttpServerCreated
  | Listening nat string
  | WsServerCreated
  | ChartDataReplaced jsval
  | WsSend nat string
  | Uncaught js_error

record world =
  trace :: "effect list"
  files :: "string \<Rightarrow> string option"

definition emit :: "effect \<Rightarrow> world \<Rightarrow> world" where
  "emit e w = w\<lparr>trace := trace w @ [e]\<rparr>"

definition logger_error :: "jsval \<Rightarrow> world \<Rightarrow> world" where
  "logger_error msg w = emit (Log LError msg) w"

definition logger_debug :: "jsval \<Rightarrow> world \<Rightarrow> world" where
  "logger_debug msg w = emit (Log LDebug msg) w"

definition logger_info :: "jsval \<Rightarrow> world \<Rightarrow> world" where
  "logger_info msg w = emit (Log LInfo msg) w"

text \<open>The entries another component wrote to the logger while it ran.\<close>

definition emit_logs :: "(level \<times> jsval) list \<Rightarrow> world \<Rightarrow> world" where
  "emit_logs logs w = foldl (\<lambda>v (l, m). emit (Log l m) v) w logs"

text \<open>The effects a call added to the trace it started from.\<close>

definition new_effects :: "world \<Rightarrow> world \<Rightarrow> effect list" where
  "new_effects w w' = drop (length (trace w)) (trace w')"

text \<open>
  What the analyzer throws: null, undefined, or any other value, known by its string
  conversion (what \<^verbatim>\<open>${err}\<close> gives) and by its \<^verbatim>\<open>stack\<close> property (undefined when it
  has none). As among the values above, symbols and objects without a string conversion
  are left out.
\<close>

datatype thrown = ThrownNull | ThrownUndefined | ThrownValue string jsval

fun thrown_text :: "thrown \<Rightarrow> string" where
  "thrown_text ThrownNull = ''null''"
| "thrown_text ThrownUndefined = ''undefined''"
| "thrown_text (ThrownValue msg stack) = msg"

text \<open>The property read \<^verbatim>\<open>err.stack\<close>, which throws on null and undefined.\<close>

fun thrown_stack :: "thrown \<Rightarrow> jsval outcome" where
  "thrown_stack ThrownNull = Throws TypeError"
| "thrown_stack ThrownUndefined = Throws TypeError"
| "thrown_stack (ThrownValue msg stack) = Returns stack"

datatype analyzer_result = Returned jsval | Raised thrown

record analyzer_opts =
  ao_excludeAssets :: jsval
  ao_compressionAlgorithm :: jsval

record render_args =
  ra_mode :: string
  ra_title :: jsval
  ra_chartData :: jsval
  ra_entrypoints :: jsval
  ra_defaultSizes :: jsval
  ra_compressionAlgorithm :: jsval
  ra_enableWebSocket :: bool

record listen_info =
  listenPort :: nat
  listenHost :: string
  boundAddress :: jsval

text \<open>
  The collaborators of viewer.js, which are not part of it: \<^verbatim>\<open>analyzer.getViewerData\<close>
  (with the log entries it writes to the logger it is given), \<^verbatim>\<open>renderViewer\<close>,
  \<^verbatim>\<open>JSON.stringify\<close>, \<^verbatim>\<open>bold\<close>, \<^verbatim>\<open>process.cwd()\<close>, \<^verbatim>\<open>server.address()\<close>, and whether the
  system refuses to create a directory, to write a file, or to bind a port.
\<close>

record env =
  getViewerData :: "jsval \<Rightarrow> string option \<Rightarrow> analyzer_opts \<Rightarrow> (level \<times> jsval) list \<times> analyzer_result"
  renderViewer :: "render_args \<Rightarrow> string"
  JSON_stringify :: "jsval \<Rightarrow> string"
  bold :: "string \<Rightarrow> string"
  process_cwd :: string
  server_address :: "nat \<Rightarrow> string \<Rightarrow> jsval"
  mkdir_error :: "string \<Rightarrow> world \<Rightarrow> js_error option"
  writeFile_error :: "string \<Rightarrow> world \<Rightarrow> js_error option"
  listen_error :: "nat \<Rightarrow> string \<Rightarrow> world \<Rightarrow> js_error option"

text \<open>\<^verbatim>\<open>fs.mkdir(dir, {recursive: true})\<close> and \<^verbatim>\<open>fs.writeFile(file, data)\<close>, which
  replaces what the file held.\<close>

definition fs_mkdir :: "env \<Rightarrow> string \<Rightarrow> world \<Rightarrow> unit outcome \<times> world" where
  "fs_mkdir E dir w =
     (case mkdir_error E dir w of
        Some e \<Rightarrow> (Throws e, w)
      | None \<Rightarrow> (Returns (), emit (Mkdir dir) w))"

definition fs_writeFile :: "env \<Rightarrow> string \<Rightarrow> string \<Rightarrow> world \<Rightarrow> unit outcome \<times> world" where
  "fs_writeFile E file data w =
     (case writeFile_error E file w of
        Some e \<Rightarrow> (Throws e, w)
      | None \<Rightarrow> (Returns (), emit (WriteFile file data) (w\<lparr>files := (files w)(file \<mapsto> data)\<rparr>)))"

section \<open>The chart data pipeline\<close>

text \<open>
  \<open>getChartData\<close>: the \<^verbatim>\<open>try\<close> block around the analyzer, the \<^verbatim>\<open>catch\<close> block with its two
  logger calls (the second reads \<^verbatim>\<open>err.stack\<close>, and what that read throws leaves the
  function), then the test of line 208.
\<close>

definition getChartData ::
  "env \<Rightarrow> analyzer_opts \<Rightarrow> jsval \<Rightarrow> string option \<Rightarrow> world \<Rightarrow> jsval outcome \<times> world" where
  "getChartData E analyzerOpts bundleStats bundleDir w =
     (case getViewerData E bundleStats bundleDir analyzerOpts of
        (analyzerLogs, result) \<Rightarrow>
          (let w0 = emit_logs analyzerLogs w
           in (case (case result of
                       Returned v \<Rightarrow> (Returns v, w0)
                     | Raised err \<Rightarrow>
                         (let logged =
                                logger_error
                                  (JStr (''Couldn't analyze webpack bundle:\<newline>''
                                     @ thrown_text err))
                                  w0
                          in (case thrown_stack err of
                                Throws e \<Rightarrow> (Throws e, logged)
                              | Returns stack \<Rightarrow> (Returns JNull, logger_debug stack logged)))) of
                 (Throws e, w1) \<Rightarrow> (Throws e, w1)
               | (Returns chartData, w1) \<Rightarrow>
                   if truthy chartData \<and> \<not> isArray chartData then
                     (Returns JNull,
                      logger_error
                        (JStr ''Couldn't find any javascript bundles in provided stats file'') w1)
                   else (Returns chartData, w1))))"

section \<open>Options\<close>

text \<open>
  The options object: a field that is absent (undefined) is \<open>None\<close>, or \<open>JUndefined\<close>
  where the field holds any value; the destructuring of each entry point puts its
  default in.
\<close>

record viewer_opts =
  o_port :: "nat option"
  o_host :: "string option"
  o_openBrowser :: "bool option"
  o_bundleDir :: "string option"
  o_defaultSizes :: jsval
  o_compressionAlgorithm :: jsval
  o_excludeAssets :: jsval
  o_reportTitle :: report_title
  o_analyzerUrl :: "(listen_info \<Rightarrow> string) option"
  o_reportFilename :: "string option"

definition empty_opts :: viewer_opts where
  "empty_opts =
     \<lparr>o_port = None, o_host = None, o_openBrowser = None, o_bundleDir = None,
      o_defaultSizes = JUndefined, o_compressionAlgorithm = JUndefined,
      o_excludeAssets = JUndefined, o_reportTitle = TitleValue JUndefined,
      o_analyzerUrl = None, o_reportFilename = None\<rparr>"

text \<open>\<^verbatim>\<open>opts || {}\<close>.\<close>

definition opts_or_empty :: "viewer_opts option \<Rightarrow> viewer_opts" where
  "opts_or_empty opts = (case opts of None \<Rightarrow> empty_opts | Some cfg \<Rightarrow> cfg)"

text \<open>A destructuring default: it replaces undefined only.\<close>

definition default_to :: "'a \<Rightarrow> 'a option \<Rightarrow> 'a" where
  "default_to d v = (case v of None \<Rightarrow> d | Some x \<Rightarrow> x)"

definition default_val :: "jsval \<Rightarrow> jsval \<Rightarrow> jsval" where
  "default_val d v = (if v = JUndefined then d else v)"

definition analyzerOpts_of :: "viewer_opts \<Rightarrow> analyzer_opts" where
  "analyzerOpts_of cfg =
     \<lparr>ao_excludeAssets = default_val JNull (o_excludeAssets cfg),
      ao_compressionAlgorithm = o_compressionAlgorithm cfg\<rparr>"

section \<open>The static reports\<close>

text \<open>\<^verbatim>\<open>path.resolve(bundleDir || process.cwd(), reportFilename)\<close>.\<close>

definition bundleDir_or_cwd :: "env \<Rightarrow> string option \<Rightarrow> string" where
  "bundleDir_or_cwd E bundleDir =
     (case bundleDir of
        None \<Rightarrow> process_cwd E
      | Some dir \<Rightarrow> if dir = [] then process_cwd E else dir)"

definition reportFilepath :: "env \<Rightarrow> string option \<Rightarrow> string \<Rightarrow> string" where
  "reportFilepath E bundleDir reportFilename =
     path_resolve (process_cwd E) [bundleDir_or_cwd E bundleDir, reportFilename]"

definition generateReport ::
  "env \<Rightarrow> jsval \<Rightarrow> viewer_opts option \<Rightarrow> world \<Rightarrow> jsval outcome \<times> world" where
  "generateReport E bundleStats opts w =
     (let cfg = opts_or_empty opts;
          openBrowser = default_to True (o_openBrowser cfg);
          bundleDir = o_bundleDir cfg;
          defaultSizes = default_val (JStr ''parsed'') (o_defaultSizes cfg);
          compressionAlgorithm = o_compressionAlgorithm cfg
      in (case getChartData E (analyzerOpts_of cfg) bundleStats bundleDir w of
            (Throws e, w1) \<Rightarrow> (Throws e, w1)
          | (Returns chartData, w1) \<Rightarrow>
              (case getEntrypoints bundleStats of
                 Throws e \<Rightarrow> (Throws e, w1)
               | Returns entrypoints \<Rightarrow>
                   if \<not> truthy chartData then (Returns JUndefined, w1)
                   else
                     (let reportHtml =
                            renderViewer E
                              \<lparr>ra_mode = ''static'',
                               ra_title = resolveTitle (o_reportTitle cfg),
                               ra_chartData = chartData,
                               ra_entrypoints = entrypoints,
                               ra_defaultSizes =
                                 resolveDefaultSizes defaultSizes compressionAlgorithm,
                               ra_compressionAlgorithm = compressionAlgorithm,
                               ra_enableWebSocket = False\<rparr>
                      in (case o_reportFilename cfg of
                            None \<Rightarrow> (Throws TypeError, w1)
                          | Some reportFilename \<Rightarrow>
                              (let filepath = reportFilepath E bundleDir reportFilename
                               in (case fs_mkdir E (path_dirname filepath) w1 of
                                     (Throws e, w2) \<Rightarrow> (Throws e, w2)
                                   | (Returns u, w2) \<Rightarrow>
                                       (case fs_writeFile E filepath reportHtml w2 of
                                          (Throws e, w3) \<Rightarrow> (Throws e, w3)
                                        | (Returns u', w3) \<Rightarrow>
                                            (let w4 =
                                                   logger_info
                                                     (JStr (bold E ''Webpack Bundle Analyzer''
                                                        @ '' saved report to ''
                                                        @ bold E filepath)) w3
                                             in (Returns JUndefined,
                                                 if openBrowser
                                                 then emit (OpenUrl (''file://'' @ filepath)) w4
                                                 else w4))))))))))"

definition generateJSONReport ::
  "env \<Rightarrow> jsval \<Rightarrow> viewer_opts option \<Rightarrow> world \<Rightarrow> jsval outcome \<times> world" where
  "generateJSONReport E bundleStats opts w =
     (let cfg = opts_or_empty opts;
          bundleDir = o_bundleDir cfg
      in (case getChartData E (analyzerOpts_of cfg) bundleStats bundleDir w of
            (Throws e, w1) \<Rightarrow> (Throws e, w1)
          | (Returns chartData, w1) \<Rightarrow>
              if \<not> truthy chartData then (Returns JUndefined, w1)
              else
                (case o_reportFilename cfg of
                   None \<Rightarrow> (Throws TypeError, w1)
                 | Some reportFilename \<Rightarrow>
                     (case fs_mkdir E (path_dirname reportFilename) w1 of
                        (Throws e, w2) \<Rightarrow> (Throws e, w2)
                      | (Returns u, w2) \<Rightarrow>
                          (case fs_writeFile E reportFilename (JSON_stringify E chartData) w2 of
                             (Throws e, w3) \<Rightarrow> (Throws e, w3)
                           | (Returns u', w3) \<Rightarrow>
                               (Returns JUndefined,
                                logger_info
                                  (JStr (bold E ''Webpack Bundle Analyzer''
                                     @ '' saved JSON report to ''
                                     @ bold E reportFilename)) w3))))))"

section \<open>The report server\<close>

text \<open>
  A connection of the push channel: its state, and the text frames the server has sent
  on it, oldest first.
\<close>

record ws_client =
  readyState :: ready_state
  outbox :: "string list"

text \<open>
  What a started server holds: the variables \<^verbatim>\<open>startServer\<close> closes over (of which
  \<^verbatim>\<open>chartData\<close> alone is assigned again) and \<^verbatim>\<open>wss.clients\<close> in iteration order.
\<close>

record server =
  srv_chartData :: jsval
  srv_entrypoints :: jsval
  srv_analyzerOpts :: analyzer_opts
  srv_bundleDir :: "string option"
  srv_reportTitle :: report_title
  srv_defaultSizes :: jsval
  srv_compressionAlgorithm :: jsval
  srv_clients :: "ws_client list"

text \<open>The answer to \<^verbatim>\<open>GET /\<close>.\<close>

definition viewer_page :: "env \<Rightarrow> server \<Rightarrow> string" where
  "viewer_page E srv =
     renderViewer E
       \<lparr>ra_mode = ''server'',
        ra_title = resolveTitle (srv_reportTitle srv),
        ra_chartData = srv_chartData srv,
        ra_entrypoints = srv_entrypoints srv,
        ra_defaultSizes =
          resolveDefaultSizes (srv_defaultSizes srv) (srv_compressionAlgorithm srv),
        ra_compressionAlgorithm = srv_compressionAlgorithm srv,
        ra_enableWebSocket = True\<rparr>"

text \<open>
  \<^verbatim>\<open>wss.clients.forEach\<close> of \<^verbatim>\<open>updateChartData\<close>, from position \<open>i\<close> on: a client whose
  state is \<^verbatim>\<open>WebSocket.OPEN\<close> is sent the frame, any other is passed.
\<close>

fun send_to_open ::
  "string \<Rightarrow> nat \<Rightarrow> ws_client list \<Rightarrow> world \<Rightarrow> ws_client list \<times> world" where
  "send_to_open frame i [] w = ([], w)"
| "send_to_open frame i (client # rest) w =
     (if readyState client = OPEN then
        (case send_to_open frame (Suc i) rest (emit (WsSend i frame) w) of
           (rest', w') \<Rightarrow> (client\<lparr>outbox := outbox client @ [frame]\<rparr> # rest', w'))
      else
        (case send_to_open frame (Suc i) rest w of
           (rest', w') \<Rightarrow> (client # rest', w')))"

definition updateChartData ::
  "env \<Rightarrow> server \<Rightarrow> jsval \<Rightarrow> world \<Rightarrow> jsval outcome \<times> server \<times> world" where
  "updateChartData E srv bundleStats w =
     (case getChartData E (srv_analyzerOpts srv) bundleStats (srv_bundleDir srv) w of
        (Throws e, w1) \<Rightarrow> (Throws e, srv, w1)
      | (Returns newChartData, w1) \<Rightarrow>
          if \<not> truthy newChartData then (Returns JUndefined, srv, w1)
          else
            (let srv1 = srv\<lparr>srv_chartData := newChartData\<rparr>;
                 w2 = emit (ChartDataReplaced newChartData) w1;
                 frame =
                   JSON_stringify E
                     (JObj [(''event'', JStr ''chartDataUpdated''), (''data'', newChartData)])
             in (case send_to_open frame 0 (srv_clients srv1) w2 of
                   (clients', w3) \<Rightarrow>
                     (Returns JUndefined, srv1\<lparr>srv_clients := clients'\<rparr>, w3))))"

text \<open>
  \<^verbatim>\<open>startServer\<close>: \<open>Returns None\<close> is the bare \<^verbatim>\<open>return\<close>, \<open>Returns (Some srv)\<close> the
  handles of the started server. The promise awaited on line 82 is resolved by the
  callback of \<^verbatim>\<open>server.listen\<close>. When the bind is refused the server emits an error
  that has no listener, the callback never runs and the promise of \<^verbatim>\<open>startServer\<close>
  stays unsettled. The callback resolves first and then builds the URL, logs the banner
  and opens the browser; when \<^verbatim>\<open>analyzerUrl\<close> is absent, calling it throws inside the
  callback, after the resolution: the banner and the browser are skipped, and the start
  goes on to the WebSocket server and the handles.
\<close>

definition startServer ::
  "env \<Rightarrow> jsval \<Rightarrow> viewer_opts option \<Rightarrow> world \<Rightarrow> server option promise \<times> world" where
  "startServer E bundleStats opts w =
     (let cfg = opts_or_empty opts;
          port = default_to 8888 (o_port cfg);
          host = default_to ''127.0.0.1'' (o_host cfg);
          openBrowser = default_to True (o_openBrowser cfg);
          bundleDir = o_bundleDir cfg;
          defaultSizes = default_val (JStr ''parsed'') (o_defaultSizes cfg);
          compressionAlgorithm = o_compressionAlgorithm cfg;
          analyzerOpts = analyzerOpts_of cfg
      in (case getChartData E analyzerOpts bundleStats bundleDir w of
            (Throws e, w1) \<Rightarrow> (Settled (Throws e), w1)
          | (Returns chartData, w1) \<Rightarrow>
              (case getEntrypoints bundleStats of
                 Throws e \<Rightarrow> (Settled (Throws e), w1)
               | Returns entrypoints \<Rightarrow>
                   if \<not> truthy chartData then (Settled (Returns None), w1)
                   else
                     (let w2 = emit HttpServerCreated w1
                      in (case listen_error E port host w2 of
                            Some e \<Rightarrow> (Unsettled, emit (Uncaught e) w2)
                          | None \<Rightarrow>
                              (let w3 = emit (Listening port host) w2;
                                   w5 =
                                     (case o_analyzerUrl cfg of
                                        None \<Rightarrow> emit (Uncaught TypeError) w3
                                      | Some analyzerUrl \<Rightarrow>
                                          (let url =
                                                 analyzerUrl
                                                   \<lparr>listenPort = port, listenHost = host,
                                                    boundAddress = server_address E port host\<rparr>;
                                               w4 =
                                                 logger_info
                                                   (JStr (bold E ''Webpack Bundle Analyzer''
                                                      @ '' is started at '' @ bold E url
                                                      @ ''\<newline>Use '' @ bold E ''Ctrl+C''
                                                      @ '' to close it'')) w3
                                           in if openBrowser then emit (OpenUrl url) w4 else w4));
                                   w6 = emit WsServerCreated w5
                               in (Settled
                                     (Returns
                                        (Some
                                           \<lparr>srv_chartData = chartData,
                                            srv_entrypoints = entrypoints,
                                            srv_analyzerOpts = analyzerOpts,
                                            srv_bundleDir = bundleDir,
                                            srv_reportTitle = o_reportTitle cfg,
                                            srv_defaultSizes = defaultSizes,
                                            srv_compressionAlgorithm = compressionAlgorithm,
                                            srv_clients = []\<rparr>)),
                                   w6)))))))"

section \<open>Sample inputs\<close>

text \<open>
  Concrete collaborators and inputs for the examples: an analyzer that gives a fixed
  result whatever the stats are, a system that refuses nothing, a \<^verbatim>\<open>bold\<close> that adds
  no colour, and a serializer for values built from null, booleans, natural numbers,
  plain strings, arrays and objects.
\<close>

fun digits :: "nat \<Rightarrow> string" where
  "digits n = (if n < 10 then [char_of (48 + n)] else digits (n div 10) @ [char_of (48 + n mod 10)])"

declare digits.simps [simp del]

fun join_comma :: "string list \<Rightarrow> string" where
  "join_comma [] = []"
| "join_comma [s] = s"
| "join_comma (s # t # ss) = s @ CHR '','' # join_comma (t # ss)"

fun sample_stringify :: "jsval \<Rightarrow> string" where
  "sample_stringify JUndefined = ''null''"
| "sample_stringify JNull = ''null''"
| "sample_stringify JNaN = ''null''"
| "sample_stringify (JBool b) = (if b then ''true'' else ''false'')"
| "sample_stringify (JNum n) = (if n < 0 then CHR ''-'' # digits (nat (- n)) else digits (nat n))"
| "sample_stringify (JStr s) = CHR 0x22 # s @ [CHR 0x22]"
| "sample_stringify (JArr xs) = CHR ''['' # join_comma (map sample_stringify xs) @ '']''"
| "sample_stringify (JObj kvs) =
     CHR ''{'' #
     join_comma (map (\<lambda>(k, v). CHR 0x22 # k @ [CHR 0x22] @ '':'' @ sample_stringify v) kvs)
     @ ''}''"

definition sample_env :: "analyzer_result \<Rightarrow> env" where
  "sample_env result =
     \<lparr>getViewerData = (\<lambda>bundleStats bundleDir analyzerOpts. ([], result)),
      renderViewer = (\<lambda>args. ''<html>'' @ sample_stringify (ra_chartData args) @ ''</html>''),
      JSON_stringify = sample_stringify,
      bold = (\<lambda>s. s),
      process_cwd = ''/work'',
      server_address = (\<lambda>port host. JObj [(''address'', JStr host), (''port'', JNum (int port))]),
      mkdir_error = (\<lambda>dir w. None),
      writeFile_error = (\<lambda>file w. None),
      listen_error = (\<lambda>port host w. None)\<rparr>"

definition sample_world :: world where
  "sample_world = \<lparr>trace = [], files = (\<lambda>file. None)\<rparr>"

definition sample_chart :: jsval where
  "sample_chart = JArr [JObj [(''label'', JStr ''main.js''), (''statSize'', JNum 100)]]"

definition sample_stats :: jsval where
  "sample_stats = JObj [(''entrypoints'', JObj [(''main'', JObj [(''name'', JStr ''main'')])])]"

definition sample_error :: thrown where
  "sample_error =
     ThrownValue ''TypeError: bundleStats.assets is not iterable''
       (JStr ''TypeError: bundleStats.assets is not iterable at getViewerData'')"

definition sample_server :: server where
  "sample_server =
     \<lparr>srv_chartData = JArr [],
      srv_entrypoints = JArr [JStr ''main''],
      srv_analyzerOpts = \<lparr>ao_excludeAssets = JNull, ao_compressionAlgorithm = JStr ''gzip''\<rparr>,
      srv_bundleDir = None,
      srv_reportTitle = TitleValue (JStr ''report''),
      srv_defaultSizes = JStr ''parsed'',
      srv_compressionAlgorithm = JStr ''gzip'',
      srv_clients =
        [\<lparr>readyState = OPEN, outbox = []\<rparr>,
         \<lparr>readyState = CLOSING, outbox = []\<rparr>,
         \<lparr>readyState = OPEN, outbox = [''earlier'']\<rparr>]\<rparr>"

section \<open>Entry point names\<close>

lemma map_outcome_read:
  "\<forall>v \<in> set vs. \<not> nullish v \<Longrightarrow>
   map_outcome (\<lambda>entrypoint. get_prop entrypoint k) vs = Returns (map (\<lambda>v. read_prop v k) vs)"
  by (induction vs) (simp_all add: get_prop_def)

lemma map_outcome_throws:
  "\<exists>v \<in> set vs. nullish v \<Longrightarrow>
   map_outcome (\<lambda>entrypoint. get_prop entrypoint k) vs = Throws TypeError"
proof (induction vs)
  case Nil
  then show ?case by simp
next
  case (Cons a vs)
  show ?case
  proof (cases "nullish a")
    case True
    then show ?thesis by (simp add: get_prop_def)
  next
    case False
    with Cons.prems have "\<exists>v \<in> set vs. nullish v" by auto
    then have "map_outcome (\<lambda>entrypoint. get_prop entrypoint k) vs = Throws TypeError"
      by (rule Cons.IH)
    with False show ?thesis by (simp add: get_prop_def)
  qed
qed

lemma get_prop_JObj: "get_prop (JObj kvs) k = Returns (own_prop kvs k)"
  by (simp add: get_prop_def)

lemma getEntrypoints_absent:
  "map_of fs ''entrypoints'' = None \<Longrightarrow> getEntrypoints (JObj fs) = Returns (JArr [])"
  by (simp add: getEntrypoints_def get_prop_JObj own_prop_def)

lemma getEntrypoints_object:
  assumes "map_of fs ''entrypoints'' = Some (JObj es)"
    and "\<forall>v \<in> set (map snd es). \<not> nullish v"
  shows "getEntrypoints (JObj fs) = Returns (JArr (map (\<lambda>v. read_prop v ''name'') (map snd es)))"
proof -
  have "map_outcome (\<lambda>entrypoint. get_prop entrypoint ''name'') (map snd es)
        = Returns (map (\<lambda>v. read_prop v ''name'') (map snd es))"
    using assms(2) by (rule map_outcome_read)
  with assms(1) show ?thesis
    by (simp add: getEntrypoints_def get_prop_JObj own_prop_def)
qed

text \<open>
  The one way \<open>getEntrypoints\<close> fails: \<^verbatim>\<open>entrypoint.name\<close> is read on a value of the
  entrypoints field that is null or undefined.
\<close>

lemma getEntrypoints_throws_iff:
  "(\<exists>e. getEntrypoints bundleStats = Throws e) \<longleftrightarrow>
   (\<not> nullish bundleStats \<and> truthy (read_prop bundleStats ''entrypoints'') \<and>
    (\<exists>vs. Object_values (read_prop bundleStats ''entrypoints'') = Returns vs \<and>
          (\<exists>v \<in> set vs. nullish v)))"
proof (cases "nullish bundleStats")
  case True
  then show ?thesis by (cases bundleStats) (simp_all add: getEntrypoints_def)
next
  case False
  then have g: "get_prop bundleStats ''entrypoints'' = Returns (read_prop bundleStats ''entrypoints'')"
    and n: "bundleStats \<noteq> JNull" "bundleStats \<noteq> JUndefined"
    by (auto simp: get_prop_def)
  show ?thesis
  proof (cases "truthy (read_prop bundleStats ''entrypoints'')")
    case False
    then show ?thesis using g n by (simp add: getEntrypoints_def)
  next
    case True
    then obtain vs where vs: "Object_values (read_prop bundleStats ''entrypoints'') = Returns vs"
      by (cases "read_prop bundleStats ''entrypoints''") auto
    show ?thesis
    proof (cases "\<exists>v \<in> set vs. nullish v")
      case True
      with vs g n \<open>truthy _\<close> \<open>\<not> nullish bundleStats\<close> show ?thesis
        by (simp add: getEntrypoints_def map_outcome_throws)
    next
      case False
      then have "\<forall>v \<in> set vs. \<not> nullish v" by blast
      with vs g n \<open>truthy _\<close> show ?thesis
        by (simp add: getEntrypoints_def map_outcome_read)
    qed
  qed
qed

text \<open>
  C8, as the code has it. \<open>getEntrypoints\<close> gives the empty sequence for undefined, for
  null, for the empty object and for any object without an entrypoints field. For an
  object whose entrypoints field is a mapping with no null or undefined value, it gives
  the name field of each value, in the mapping's order (so \<^verbatim>\<open>[x, y]\<close> for the mapping of
  \<^verbatim>\<open>a\<close> to a record named x and \<^verbatim>\<open>b\<close> to a record named y). It is a function of its
  argument alone, and it fails in one case only: when a value of a truthy entrypoints
  field is null or undefined, reading its name raises a TypeError.
\<close>

theorem getEntrypoints_names:
  "getEntrypoints JUndefined = Returns (JArr []) \<and>
   getEntrypoints JNull = Returns (JArr []) \<and>
   getEntrypoints (JObj []) = Returns (JArr []) \<and>
   (map_of fs ''entrypoints'' = None \<longrightarrow> getEntrypoints (JObj fs) = Returns (JArr [])) \<and>
   (map_of fs ''entrypoints'' = Some (JObj es) \<and> (\<forall>v \<in> set (map snd es). \<not> nullish v) \<longrightarrow>
      getEntrypoints (JObj fs) = Returns (JArr (map (\<lambda>v. read_prop v ''name'') (map snd es)))) \<and>
   getEntrypoints
     (JObj [(''entrypoints'',
             JObj [(''a'', JObj [(''name'', JStr ''x'')]), (''b'', JObj [(''name'', JStr ''y'')])])])
     = Returns (JArr [JStr ''x'', JStr ''y'']) \<and>
   ((\<exists>e. getEntrypoints bundleStats = Throws e) \<longleftrightarrow>
      (\<not> nullish bundleStats \<and> truthy (read_prop bundleStats ''entrypoints'') \<and>
       (\<exists>vs. Object_values (read_prop bundleStats ''entrypoints'') = Returns vs \<and>
             (\<exists>v \<in> set vs. nullish v))))"
proof -
  have a: "getEntrypoints JUndefined = Returns (JArr [])"
    and b: "getEntrypoints JNull = Returns (JArr [])"
    by (simp_all add: getEntrypoints_def)
  have c: "getEntrypoints (JObj []) = Returns (JArr [])"
    by (simp add: getEntrypoints_absent)
  have d: "getEntrypoints
     (JObj [(''entrypoints'',
             JObj [(''a'', JObj [(''name'', JStr ''x'')]), (''b'', JObj [(''name'', JStr ''y'')])])])
     = Returns (JArr [JStr ''x'', JStr ''y''])"
    by (simp add: getEntrypoints_def get_prop_def own_prop_def)
  show ?thesis
    using a b c d getEntrypoints_absent [of fs] getEntrypoints_object [of fs es]
      getEntrypoints_throws_iff [of bundleStats]
    by blast
qed

theorem getEntrypoints_names_witness:
  "getEntrypoints sample_stats = Returns (JArr [JStr ''main'']) \<and>
   getEntrypoints (JObj [(''assets'', JArr [])]) = Returns (JArr []) \<and>
   (\<exists>e. getEntrypoints (JArr [JNum 1]) = Throws e) = False"
  using getEntrypoints_names
    [of "[(''assets'', JArr [])]" "[(''main'', JObj [(''name'', JStr ''main'')])]" "JArr [JNum 1]"]
    getEntrypoints_names
    [of "[(''entrypoints'', JObj [(''main'', JObj [(''name'', JStr ''main'')])])]"
        "[(''main'', JObj [(''name'', JStr ''main'')])]" JNull]
  by (simp add: sample_stats_def own_prop_def)

text \<open>
  C8 as the specification states it (no failure modes) fails on stats whose entrypoints
  mapping holds a null value: \<^verbatim>\<open>Object.values\<close> yields that null, and reading its
  \<^verbatim>\<open>name\<close> throws.
\<close>

theorem getEntrypoints_null_entry:
  "getEntrypoints (JObj [(''entrypoints'', JObj [(''a'', JNull)])]) = Throws TypeError"
  by (simp add: getEntrypoints_def get_prop_def own_prop_def)

text \<open>
  C10, as the code has it. When the entrypoints field of the stats is a non-empty mapping
  with no null or undefined value, \<open>getEntrypoints\<close> returns a sequence with one element
  for each entry of the mapping, and the element at the position of a record without a
  name field is undefined, not a string.
\<close>

theorem getEntrypoints_length:
  assumes "map_of fs ''entrypoints'' = Some (JObj es)"
    and "es \<noteq> []"
    and "\<forall>v \<in> set (map snd es). \<not> nullish v"
  shows "\<exists>names. getEntrypoints (JObj fs) = Returns (JArr names) \<and>
           length names = length es \<and>
           (\<forall>i < length es. \<forall>kvs. snd (es ! i) = JObj kvs \<and> map_of kvs ''name'' = None
                \<longrightarrow> names ! i = JUndefined \<and> (\<forall>s. names ! i \<noteq> JStr s))"
proof -
  let ?names = "map (\<lambda>v. read_prop v ''name'') (map snd es)"
  have "getEntrypoints (JObj fs) = Returns (JArr ?names)"
    using assms(1,3) by (rule getEntrypoints_object)
  moreover have "length ?names = length es" by simp
  moreover have "\<forall>i < length es. \<forall>kvs. snd (es ! i) = JObj kvs \<and> map_of kvs ''name'' = None
                \<longrightarrow> ?names ! i = JUndefined \<and> (\<forall>s. ?names ! i \<noteq> JStr s)"
    by (simp add: own_prop_def)
  ultimately show ?thesis by blast
qed

theorem getEntrypoints_length_witness:
  "\<exists>names. getEntrypoints
       (JObj [(''entrypoints'', JObj [(''a'', JObj [(''name'', JStr ''x'')]), (''b'', JObj [])])])
       = Returns (JArr names) \<and> length names = 2 \<and> names ! 1 = JUndefined"
proof -
  let ?es = "[(''a'', JObj [(''name'', JStr ''x'')]), (''b'', JObj [])]"
  have h1: "map_of [(''entrypoints'', JObj ?es)] ''entrypoints'' = Some (JObj ?es)" by simp
  have h2: "?es \<noteq> []" by simp
  have h3: "\<forall>v \<in> set (map snd ?es). \<not> nullish v" by simp
  from getEntrypoints_length [OF h1 h2 h3]
  obtain names where n: "getEntrypoints (JObj [(''entrypoints'', JObj ?es)]) = Returns (JArr names)"
    and l: "length names = length ?es"
    and u: "\<forall>i < length ?es. \<forall>kvs. snd (?es ! i) = JObj kvs \<and> map_of kvs ''name'' = None
                \<longrightarrow> names ! i = JUndefined \<and> (\<forall>s. names ! i \<noteq> JStr s)"
    by blast
  from u have "names ! 1 = JUndefined" by simp
  with n l show ?thesis by simp
qed

text \<open>
  C10 as the specification states it fails on a non-empty mapping that holds a null
  value: reading the name of that value throws on line 224, and no sequence is returned,
  whatever the other entries are.
\<close>

theorem getEntrypoints_length_null_value:
  "getEntrypoints
     (JObj [(''entrypoints'',
             JObj [(''main'', JObj [(''name'', JStr ''main'')]), (''vendor'', JNull)])])
   = Throws TypeError"
  by (simp add: getEntrypoints_def get_prop_def own_prop_def)

section \<open>Default sizes\<close>

text \<open>
  C9. \<open>resolveDefaultSizes\<close> gives the compression algorithm when the default size is
  the string gzip or the string brotli, and the default size itself otherwise; so it
  gives brotli for gzip and brotli, parsed for parsed and brotli, and undefined for
  brotli and undefined.
\<close>

theorem resolveDefaultSizes_cases:
  "resolveDefaultSizes defaultSizes compressionAlgorithm =
     (if defaultSizes = JStr ''gzip'' \<or> defaultSizes = JStr ''brotli''
      then compressionAlgorithm else defaultSizes) \<and>
   resolveDefaultSizes (JStr ''gzip'') (JStr ''brotli'') = JStr ''brotli'' \<and>
   resolveDefaultSizes (JStr ''parsed'') (JStr ''brotli'') = JStr ''parsed'' \<and>
   resolveDefaultSizes (JStr ''brotli'') JUndefined = JUndefined"
  by (simp add: resolveDefaultSizes_def)

theorem resolveDefaultSizes_cases_witness:
  "resolveDefaultSizes (JStr ''stat'') (JStr ''gzip'') = JStr ''stat'' \<and>
   resolveDefaultSizes (JStr ''gzip'') (JStr ''zstd'') = JStr ''zstd''"
  using resolveDefaultSizes_cases [of "JStr ''stat''" "JStr ''gzip''"]
    resolveDefaultSizes_cases [of "JStr ''gzip''" "JStr ''zstd''"]
  by simp

section \<open>The chart data pipeline: what it returns and logs\<close>

lemma emit_logs_eq:
  "emit_logs logs w = w\<lparr>trace := trace w @ map (\<lambda>(l, m). Log l m) logs\<rparr>"
  unfolding emit_logs_def
  by (induction logs arbitrary: w) (simp_all add: emit_def split: prod.splits)

lemma getChartData_raised:
  assumes "getViewerData E bundleStats bundleDir analyzerOpts = (logs, Raised (ThrownValue msg stack))"
  shows "getChartData E analyzerOpts bundleStats bundleDir w =
     (Returns JNull,
      w\<lparr>trace := trace w @ map (\<lambda>(l, m). Log l m) logs @
         [Log LError (JStr (''Couldn't analyze webpack bundle:\<newline>'' @ msg)),
          Log LDebug stack]\<rparr>)"
  using assms
  by (simp add: getChartData_def Let_def emit_logs_eq logger_error_def logger_debug_def emit_def)

lemma getChartData_raised_nullish:
  assumes "getViewerData E bundleStats bundleDir analyzerOpts = (logs, Raised err)"
    and "err = ThrownNull \<or> err = ThrownUndefined"
  shows "getChartData E analyzerOpts bundleStats bundleDir w =
     (Throws TypeError,
      w\<lparr>trace := trace w @ map (\<lambda>(l, m). Log l m) logs @
         [Log LError (JStr (''Couldn't analyze webpack bundle:\<newline>'' @ thrown_text err))]\<rparr>)"
  using assms
  by (auto simp: getChartData_def Let_def emit_logs_eq logger_error_def emit_def)

lemma getChartData_returned:
  assumes "getViewerData E bundleStats bundleDir analyzerOpts = (logs, Returned v)"
  shows "getChartData E analyzerOpts bundleStats bundleDir w =
     (if truthy v \<and> \<not> isArray v then
        (Returns JNull,
         w\<lparr>trace := trace w @ map (\<lambda>(l, m). Log l m) logs @
           [Log LError (JStr ''Couldn't find any javascript bundles in provided stats file'')]\<rparr>)
      else (Returns v, w\<lparr>trace := trace w @ map (\<lambda>(l, m). Log l m) logs\<rparr>))"
  using assms
  by (simp add: getChartData_def Let_def emit_logs_eq logger_error_def emit_def)

lemma getChartData_effects:
  assumes "getChartData E analyzerOpts bundleStats bundleDir w = (r, w1)"
  shows "files w1 = files w \<and> trace w1 = trace w @ new_effects w w1 \<and>
         (\<forall>e \<in> set (new_effects w w1). \<exists>l m. e = Log l m)"
proof -
  obtain logs result where g: "getViewerData E bundleStats bundleDir analyzerOpts = (logs, result)"
    by (cases "getViewerData E bundleStats bundleDir analyzerOpts")
  show ?thesis
  proof (cases result)
    case (Returned v)
    with g assms getChartData_returned [of E bundleStats bundleDir analyzerOpts logs v w]
    show ?thesis by (auto simp: new_effects_def split: if_splits)
  next
    case (Raised err)
    show ?thesis
    proof (cases err)
      case (ThrownValue msg stack)
      with Raised g assms
        getChartData_raised [of E bundleStats bundleDir analyzerOpts logs msg stack w]
      show ?thesis by (auto simp: new_effects_def)
    next
      case ThrownNull
      with Raised g assms
        getChartData_raised_nullish [of E bundleStats bundleDir analyzerOpts logs err w]
      show ?thesis by (auto simp: new_effects_def)
    next
      case ThrownUndefined
      with Raised g assms
        getChartData_raised_nullish [of E bundleStats bundleDir analyzerOpts logs err w]
      show ?thesis by (auto simp: new_effects_def)
    qed
  qed
qed

text \<open>
  C1, as the code has it. When the analyzer returns a truthy value that is not an array,
  \<open>getChartData\<close> returns null and logs, after what the analyzer logged, the one error
  message that no javascript bundles were found. A falsy value (0, NaN, the empty
  string, false, undefined, null) passes the test of line 210: it is returned as it is,
  and nothing is logged.
\<close>

theorem getChartData_no_bundles:
  "(getViewerData E bundleStats bundleDir analyzerOpts = (logs, Returned v) \<and>
      truthy v \<and> \<not> isArray v \<longrightarrow>
    getChartData E analyzerOpts bundleStats bundleDir w =
      (Returns JNull,
       w\<lparr>trace := trace w @ map (\<lambda>(l, m). Log l m) logs @
          [Log LError (JStr ''Couldn't find any javascript bundles in provided stats file'')]\<rparr>)) \<and>
   (getViewerData E bundleStats bundleDir analyzerOpts = (logs, Returned v) \<and> \<not> truthy v \<longrightarrow>
    getChartData E analyzerOpts bundleStats bundleDir w =
      (Returns v, w\<lparr>trace := trace w @ map (\<lambda>(l, m). Log l m) logs\<rparr>))"
  using getChartData_returned [of E bundleStats bundleDir analyzerOpts logs v w] by simp

theorem getChartData_no_bundles_witness:
  "getChartData (sample_env (Returned (JObj []))) (srv_analyzerOpts sample_server) sample_stats None sample_world =
     (Returns JNull,
      \<lparr>trace = [Log LError (JStr ''Couldn't find any javascript bundles in provided stats file'')],
       files = (\<lambda>file. None)\<rparr>) \<and>
   getChartData (sample_env (Returned JNaN)) (srv_analyzerOpts sample_server) sample_stats None sample_world =
     (Returns JNaN, sample_world)"
  using getChartData_no_bundles
    [of "sample_env (Returned (JObj []))" sample_stats None "srv_analyzerOpts sample_server" "[]" "JObj []" sample_world]
    getChartData_no_bundles
    [of "sample_env (Returned JNaN)" sample_stats None "srv_analyzerOpts sample_server" "[]" JNaN sample_world]
  by (simp add: sample_env_def sample_world_def)

text \<open>
  C1 as the specification states it fails on the falsy values it names: for 0, the empty
  string, false and undefined, the result is that value, not null, and no message is
  logged.
\<close>

theorem getChartData_falsy_passes:
  "getChartData (sample_env (Returned (JNum 0))) (srv_analyzerOpts sample_server) sample_stats None sample_world
     = (Returns (JNum 0), sample_world) \<and>
   getChartData (sample_env (Returned (JStr []))) (srv_analyzerOpts sample_server) sample_stats None sample_world
     = (Returns (JStr []), sample_world) \<and>
   getChartData (sample_env (Returned (JBool False))) (srv_analyzerOpts sample_server) sample_stats None sample_world
     = (Returns (JBool False), sample_world) \<and>
   getChartData (sample_env (Returned JUndefined)) (srv_analyzerOpts sample_server) sample_stats None sample_world
     = (Returns JUndefined, sample_world)"
  by (simp add: getChartData_def Let_def sample_env_def emit_logs_def sample_world_def)




section \<open>The report server: updates and start\<close>

lemma open_positions_shift:
  "filter (\<lambda>j. readyState ((client # rest) ! (j - i)) = OPEN) [Suc i..<n]
   = filter (\<lambda>j. readyState (rest ! (j - Suc i)) = OPEN) [Suc i..<n]"
proof (rule filter_cong [OF refl])
  fix j assume "j \<in> set [Suc i..<n]"
  then have "j - i = Suc (j - Suc i)" by auto
  then show "(readyState ((client # rest) ! (j - i)) = OPEN) = (readyState (rest ! (j - Suc i)) = OPEN)"
    by simp
qed

lemma send_to_open_eq:
  "send_to_open frame i clients w =
     (map (\<lambda>c. if readyState c = OPEN then c\<lparr>outbox := outbox c @ [frame]\<rparr> else c) clients,
      w\<lparr>trace := trace w @
           map (\<lambda>j. WsSend j frame)
             (filter (\<lambda>j. readyState (clients ! (j - i)) = OPEN) [i..<i + length clients])\<rparr>)"
proof (induction clients arbitrary: i w)
  case Nil
  then show ?case by simp
next
  case (Cons client rest)
  have u: "[i..<i + length (client # rest)] = i # [Suc i..<Suc i + length rest]"
    using upt_conv_Cons [of i "i + length (client # rest)"] by (simp del: upt_Suc)
  show ?case
    unfolding u
    by (simp add: Cons.IH open_positions_shift emit_def del: upt_Suc)
qed

lemma getChartData_logs_only:
  assumes "getChartData E analyzerOpts bundleStats bundleDir w = (r, w1)"
  shows "\<forall>e \<in> set (new_effects w w1). \<exists>l m. e = Log l m"
  using getChartData_effects [OF assms] by blast

text \<open>
  C2. When the pipeline run of \<open>updateChartData\<close> yields a chart-data array, the server's
  chart data is replaced by it first; then each client whose state is open is sent one
  text frame, the JSON text of the object with event chartDataUpdated and the new chart
  data, in the order of the client set; a client in any other state is left as it is.
  The call returns normally, and these are all the effects after the pipeline's own.
\<close>

theorem updateChartData_broadcast:
  assumes "getChartData E (srv_analyzerOpts srv) bundleStats (srv_bundleDir srv) w = (Returns (JArr xs), w1)"
  shows "(let frame = JSON_stringify E (JObj [(''event'', JStr ''chartDataUpdated''), (''data'', JArr xs)])
          in updateChartData E srv bundleStats w =
             (Returns JUndefined,
              srv\<lparr>srv_chartData := JArr xs,
                  srv_clients :=
                    map (\<lambda>c. if readyState c = OPEN then c\<lparr>outbox := outbox c @ [frame]\<rparr> else c)
                      (srv_clients srv)\<rparr>,
              w1\<lparr>trace := trace w1 @
                   ChartDataReplaced (JArr xs) #
                   map (\<lambda>j. WsSend j frame)
                     (filter (\<lambda>j. readyState (srv_clients srv ! j) = OPEN)
                        [0..<length (srv_clients srv)])\<rparr>))"
  using assms
  by (simp add: updateChartData_def Let_def send_to_open_eq emit_def)

theorem updateChartData_broadcast_witness:
  "updateChartData (sample_env (Returned sample_chart)) sample_server sample_stats sample_world =
     (Returns JUndefined,
      sample_server
        \<lparr>srv_chartData := sample_chart,
         srv_clients :=
           [\<lparr>readyState = OPEN,
             outbox = [sample_stringify (JObj [(''event'', JStr ''chartDataUpdated''), (''data'', sample_chart)])]\<rparr>,
            \<lparr>readyState = CLOSING, outbox = []\<rparr>,
            \<lparr>readyState = OPEN,
             outbox = [''earlier'',
                       sample_stringify (JObj [(''event'', JStr ''chartDataUpdated''), (''data'', sample_chart)])]\<rparr>]\<rparr>,
      \<lparr>trace =
         [ChartDataReplaced sample_chart,
          WsSend 0 (sample_stringify (JObj [(''event'', JStr ''chartDataUpdated''), (''data'', sample_chart)])),
          WsSend 2 (sample_stringify (JObj [(''event'', JStr ''chartDataUpdated''), (''data'', sample_chart)]))],
       files = (\<lambda>file. None)\<rparr>)"
proof -
  have g: "getChartData (sample_env (Returned sample_chart)) (srv_analyzerOpts sample_server)
             sample_stats (srv_bundleDir sample_server) sample_world
           = (Returns (JArr [JObj [(''label'', JStr ''main.js''), (''statSize'', JNum 100)]]), sample_world)"
    by (simp add: getChartData_def Let_def sample_env_def emit_logs_def sample_chart_def)
  have n: "[0..<3] = [0, 1, 2]" by (simp add: upt_rec)
  show ?thesis
    using updateChartData_broadcast [OF g]
    by (simp add: Let_def sample_chart_def sample_server_def sample_world_def sample_env_def n
        del: sample_stringify.simps)
qed

text \<open>
  C3. When the pipeline run of \<open>updateChartData\<close> yields null, the call returns normally
  and the server is what it was: its chart data and every client's outbox are unchanged.
  No frame is sent and the chart data is not replaced; the pipeline's log entries are
  the only effects.
\<close>

theorem updateChartData_null_noop:
  assumes "getChartData E (srv_analyzerOpts srv) bundleStats (srv_bundleDir srv) w = (Returns JNull, w1)"
  shows "updateChartData E srv bundleStats w = (Returns JUndefined, srv, w1) \<and>
         (\<forall>j frame. WsSend j frame \<notin> set (new_effects w w1)) \<and>
         (\<forall>v. ChartDataReplaced v \<notin> set (new_effects w w1))"
proof -
  have "updateChartData E srv bundleStats w = (Returns JUndefined, srv, w1)"
    using assms by (simp add: updateChartData_def)
  moreover have "\<forall>e \<in> set (new_effects w w1). \<exists>l m. e = Log l m"
    using assms by (rule getChartData_logs_only)
  ultimately show ?thesis by blast
qed

theorem updateChartData_null_noop_witness:
  "updateChartData (sample_env (Raised sample_error)) sample_server sample_stats sample_world =
     (Returns JUndefined, sample_server,
      \<lparr>trace =
         [Log LError (JStr ''Couldn't analyze webpack bundle:\<newline>TypeError: bundleStats.assets is not iterable''),
          Log LDebug (JStr ''TypeError: bundleStats.assets is not iterable at getViewerData'')],
       files = (\<lambda>file. None)\<rparr>)"
proof -
  have v: "getViewerData (sample_env (Raised sample_error)) sample_stats (srv_bundleDir sample_server)
             (srv_analyzerOpts sample_server)
           = ([], Raised (ThrownValue ''TypeError: bundleStats.assets is not iterable''
                           (JStr ''TypeError: bundleStats.assets is not iterable at getViewerData'')))"
    by (simp add: sample_env_def sample_error_def)
  have g: "getChartData (sample_env (Raised sample_error)) (srv_analyzerOpts sample_server)
             sample_stats (srv_bundleDir sample_server) sample_world =
           (Returns JNull,
            \<lparr>trace =
               [Log LError (JStr ''Couldn't analyze webpack bundle:\<newline>TypeError: bundleStats.assets is not iterable''),
                Log LDebug (JStr ''TypeError: bundleStats.assets is not iterable at getViewerData'')],
             files = (\<lambda>file. None)\<rparr>)"
    using getChartData_raised [OF v, of sample_world]
    by (simp add: sample_world_def)
  show ?thesis
    using updateChartData_null_noop [OF g] by simp
qed

text \<open>
  C5, as the code has it. When the first pipeline run of \<open>startServer\<close> yields null and
  \<open>getEntrypoints\<close> returns on the stats, the call returns normally with no handles (its
  promise settles with the bare return): no HTTP server is created, no port is bound, no
  WebSocket server is created. (The entry
  points are computed on line 55, before the chart data is tested on line 57.)
\<close>

theorem startServer_null_noop:
  assumes "getChartData E (analyzerOpts_of (opts_or_empty opts)) bundleStats
             (o_bundleDir (opts_or_empty opts)) w = (Returns JNull, w1)"
    and "getEntrypoints bundleStats = Returns entrypoints"
  shows "startServer E bundleStats opts w = (Settled (Returns None), w1) \<and>
         HttpServerCreated \<notin> set (new_effects w w1) \<and>
         (\<forall>port host. Listening port host \<notin> set (new_effects w w1)) \<and>
         WsServerCreated \<notin> set (new_effects w w1)"
proof -
  have "startServer E bundleStats opts w = (Settled (Returns None), w1)"
    using assms by (simp add: startServer_def Let_def)
  moreover have "\<forall>e \<in> set (new_effects w w1). \<exists>l m. e = Log l m"
    using assms(1) by (rule getChartData_logs_only)
  ultimately show ?thesis by blast
qed

theorem startServer_null_noop_witness:
  "startServer (sample_env (Returned JNull)) sample_stats None sample_world
     = (Settled (Returns None), sample_world)"
proof -
  have g: "getChartData (sample_env (Returned JNull)) (analyzerOpts_of (opts_or_empty None)) sample_stats
             (o_bundleDir (opts_or_empty None)) sample_world = (Returns JNull, sample_world)"
    by (simp add: getChartData_def Let_def sample_env_def emit_logs_def)
  have e: "getEntrypoints sample_stats = Returns (JArr [JStr ''main''])"
    by (simp add: getEntrypoints_def get_prop_def own_prop_def sample_stats_def)
  show ?thesis using startServer_null_noop [OF g e] by simp
qed

text \<open>
  C5 as the specification states it fails on stats whose entrypoints mapping holds a null
  value: the analyzer raises, the pipeline yields null, and \<open>startServer\<close> ends with the
  TypeError of \<open>getEntrypoints\<close> instead of returning.
\<close>

theorem startServer_null_entry_raises:
  "fst (getChartData (sample_env (Raised sample_error)) (analyzerOpts_of (opts_or_empty None))
          (JObj [(''entrypoints'', JObj [(''a'', JNull)])]) (o_bundleDir (opts_or_empty None)) sample_world)
     = Returns JNull \<and>
   fst (startServer (sample_env (Raised sample_error)) (JObj [(''entrypoints'', JObj [(''a'', JNull)])])
          None sample_world)
     = Settled (Throws TypeError)"
  by (simp add: startServer_def getChartData_def Let_def sample_env_def sample_error_def
      getEntrypoints_def get_prop_def own_prop_def)

text \<open>With chart data, the server starts and holds what it was started with.\<close>

lemma startServer_starts:
  "fst (startServer (sample_env (Returned sample_chart)) sample_stats
          (Some (empty_opts\<lparr>o_analyzerUrl := Some (\<lambda>info. ''http://'' @ listenHost info)\<rparr>)) sample_world)
   = Settled (Returns (Some \<lparr>srv_chartData = sample_chart,
                   srv_entrypoints = JArr [JStr ''main''],
                   srv_analyzerOpts = \<lparr>ao_excludeAssets = JNull, ao_compressionAlgorithm = JUndefined\<rparr>,
                   srv_bundleDir = None,
                   srv_reportTitle = TitleValue JUndefined,
                   srv_defaultSizes = JStr ''parsed'',
                   srv_compressionAlgorithm = JUndefined,
                   srv_clients = []\<rparr>))"
  by (simp add: startServer_def getChartData_def Let_def sample_env_def getEntrypoints_def
      get_prop_def own_prop_def sample_stats_def sample_chart_def emit_logs_def opts_or_empty_def
      empty_opts_def default_to_def default_val_def analyzerOpts_of_def)

text \<open>
  Without \<^verbatim>\<open>analyzerUrl\<close> the server still starts: the error of the callback is
  uncaught, and no banner is logged. When the bind is refused the start never settles.
\<close>

lemma startServer_without_analyzerUrl:
  "startServer (sample_env (Returned sample_chart)) sample_stats None sample_world
   = (Settled (Returns (Some \<lparr>srv_chartData = sample_chart,
                   srv_entrypoints = JArr [JStr ''main''],
                   srv_analyzerOpts = \<lparr>ao_excludeAssets = JNull, ao_compressionAlgorithm = JUndefined\<rparr>,
                   srv_bundleDir = None,
                   srv_reportTitle = TitleValue JUndefined,
                   srv_defaultSizes = JStr ''parsed'',
                   srv_compressionAlgorithm = JUndefined,
                   srv_clients = []\<rparr>)),
      \<lparr>trace = [HttpServerCreated, Listening 8888 ''127.0.0.1'', Uncaught TypeError, WsServerCreated],
       files = (\<lambda>file. None)\<rparr>)"
  by (simp add: startServer_def getChartData_def Let_def sample_env_def getEntrypoints_def
      get_prop_def own_prop_def sample_stats_def sample_chart_def emit_logs_def opts_or_empty_def
      empty_opts_def default_to_def default_val_def analyzerOpts_of_def emit_def sample_world_def)

lemma startServer_bind_refused:
  "startServer
     ((sample_env (Returned sample_chart))
        \<lparr>listen_error := (\<lambda>port host w. Some (SystemError ''EADDRINUSE''))\<rparr>)
     sample_stats None sample_world
   = (Unsettled,
      \<lparr>trace = [HttpServerCreated, Uncaught (SystemError ''EADDRINUSE'')],
       files = (\<lambda>file. None)\<rparr>)"
  by (simp add: startServer_def getChartData_def Let_def sample_env_def getEntrypoints_def
      get_prop_def own_prop_def sample_stats_def sample_chart_def emit_logs_def opts_or_empty_def
      empty_opts_def default_to_def default_val_def analyzerOpts_of_def emit_def sample_world_def)

section \<open>The static reports: paths and files\<close>

lemma split_slash_nonempty: "split_slash xs \<noteq> []"
  by (induction xs) (auto split: list.splits)

lemma split_slash_append:
  "split_slash (xs @ CHR ''/'' # ys) = split_slash xs @ split_slash ys"
proof (induction xs)
  case Nil
  then show ?case by simp
next
  case (Cons c xs)
  obtain s ss where "split_slash xs = s # ss"
    using split_slash_nonempty [of xs] by (cases "split_slash xs") auto
  with Cons show ?case by simp
qed

lemma normalizeString_trailing:
  "normalizeString (p @ ''/'') allow = normalizeString p allow"
  by (simp add: normalizeString_def split_slash_append normalize_step_def)

lemma path_resolve_absolute:
  assumes "reportFilename \<noteq> []" and "hd reportFilename = CHR ''/''"
  shows "path_resolve cwd [base, reportFilename] = CHR ''/'' # normalizeString reportFilename False"
  using assms normalizeString_trailing [of reportFilename False]
  by (simp add: path_resolve_def)

lemma path_resolve_relative:
  assumes "reportFilename \<noteq> []" and "hd reportFilename \<noteq> CHR ''/''"
    and "base \<noteq> []" and "hd base = CHR ''/''"
  shows "path_resolve cwd [base, reportFilename]
         = CHR ''/'' # normalizeString (base @ CHR ''/'' # reportFilename) False"
  using assms normalizeString_trailing [of "base @ CHR ''/'' # reportFilename" False]
  by (simp add: path_resolve_def)

lemma path_join_absolute_base:
  assumes "reportFilename \<noteq> []" and "last reportFilename \<noteq> CHR ''/''"
    and "base \<noteq> []" and "hd base = CHR ''/''"
  shows "path_join [base, reportFilename]
         = CHR ''/'' # normalizeString (base @ CHR ''/'' # reportFilename) False"
  using assms by (simp add: path_join_def path_normalize_def Let_def)

text \<open>What a successful run of the static report generator does after the pipeline.\<close>

lemma generateReport_writes:
  assumes "getChartData E (analyzerOpts_of (opts_or_empty opts)) bundleStats
             (o_bundleDir (opts_or_empty opts)) w = (Returns chartData, w1)"
    and "getEntrypoints bundleStats = Returns entrypoints"
    and "truthy chartData"
    and "o_reportFilename (opts_or_empty opts) = Some reportFilename"
    and "filepath = reportFilepath E (o_bundleDir (opts_or_empty opts)) reportFilename"
    and "mkdir_error E (path_dirname filepath) w1 = None"
    and "writeFile_error E filepath (emit (Mkdir (path_dirname filepath)) w1) = None"
    and "html = renderViewer E
           \<lparr>ra_mode = ''static'',
            ra_title = resolveTitle (o_reportTitle (opts_or_empty opts)),
            ra_chartData = chartData,
            ra_entrypoints = entrypoints,
            ra_defaultSizes =
              resolveDefaultSizes (default_val (JStr ''parsed'') (o_defaultSizes (opts_or_empty opts)))
                (o_compressionAlgorithm (opts_or_empty opts)),
            ra_compressionAlgorithm = o_compressionAlgorithm (opts_or_empty opts),
            ra_enableWebSocket = False\<rparr>"
  shows "generateReport E bundleStats opts w =
     (Returns JUndefined,
      w1\<lparr>trace := trace w1 @
           [Mkdir (path_dirname filepath), WriteFile filepath html,
            Log LInfo (JStr (bold E ''Webpack Bundle Analyzer'' @ '' saved report to '' @ bold E filepath))]
           @ (if default_to True (o_openBrowser (opts_or_empty opts))
              then [OpenUrl (''file://'' @ filepath)] else []),
         files := (files w1)(filepath \<mapsto> html)\<rparr>)"
  using assms
  by (simp add: generateReport_def Let_def fs_mkdir_def fs_writeFile_def emit_def logger_info_def)

lemma path_resolve_relative_base:
  assumes "reportFilename \<noteq> []" and "hd reportFilename \<noteq> CHR ''/''"
    and "base \<noteq> []" and "hd base \<noteq> CHR ''/''"
    and "cwd \<noteq> []" and "hd cwd = CHR ''/''"
  shows "path_resolve cwd [base, reportFilename]
         = CHR ''/'' # normalizeString (cwd @ CHR ''/'' # base @ CHR ''/'' # reportFilename) False"
  using assms normalizeString_trailing [of "cwd @ CHR ''/'' # base @ CHR ''/'' # reportFilename" False]
  by (simp add: path_resolve_def)

lemma path_join_absolute_cwd:
  assumes "reportFilename \<noteq> []" and "last reportFilename \<noteq> CHR ''/''"
    and "base \<noteq> []" and "cwd \<noteq> []" and "hd cwd = CHR ''/''"
  shows "path_join [cwd, base, reportFilename]
         = CHR ''/'' # normalizeString (cwd @ CHR ''/'' # base @ CHR ''/'' # reportFilename) False"
  using assms by (simp add: path_join_def path_normalize_def Let_def)

text \<open>
  C6, as the code has it. The static report is written at
  \<^verbatim>\<open>path.resolve(bundleDir || process.cwd(), reportFilename)\<close>. An absolute report file
  name is its own output path (normalised), whatever the bundle directory is. A relative
  one that does not end in a slash is appended under the bundle directory, or under the
  working directory when there is none: the path is the join of that directory and the
  file name when the directory is absolute, and the join of the working directory, that
  directory and the file name when it is relative.
\<close>

theorem reportFilepath_resolve:
  "(reportFilename \<noteq> [] \<and> hd reportFilename = CHR ''/'' \<longrightarrow>
      reportFilepath E bundleDir reportFilename = CHR ''/'' # normalizeString reportFilename False) \<and>
   (reportFilename \<noteq> [] \<and> hd reportFilename \<noteq> CHR ''/'' \<and> last reportFilename \<noteq> CHR ''/'' \<and>
    bundleDir_or_cwd E bundleDir \<noteq> [] \<and> hd (bundleDir_or_cwd E bundleDir) = CHR ''/'' \<longrightarrow>
      reportFilepath E bundleDir reportFilename
        = path_join [bundleDir_or_cwd E bundleDir, reportFilename]) \<and>
   (reportFilename \<noteq> [] \<and> hd reportFilename \<noteq> CHR ''/'' \<and> last reportFilename \<noteq> CHR ''/'' \<and>
    bundleDir_or_cwd E bundleDir \<noteq> [] \<and> hd (bundleDir_or_cwd E bundleDir) \<noteq> CHR ''/'' \<and>
    process_cwd E \<noteq> [] \<and> hd (process_cwd E) = CHR ''/'' \<longrightarrow>
      reportFilepath E bundleDir reportFilename
        = path_join [process_cwd E, bundleDir_or_cwd E bundleDir, reportFilename])"
  using path_resolve_absolute [of reportFilename "process_cwd E" "bundleDir_or_cwd E bundleDir"]
    path_resolve_relative [of reportFilename "bundleDir_or_cwd E bundleDir" "process_cwd E"]
    path_join_absolute_base [of reportFilename "bundleDir_or_cwd E bundleDir"]
    path_resolve_relative_base [of reportFilename "bundleDir_or_cwd E bundleDir" "process_cwd E"]
    path_join_absolute_cwd [of reportFilename "bundleDir_or_cwd E bundleDir" "process_cwd E"]
  by (simp add: reportFilepath_def)

theorem reportFilepath_resolve_witness:
  "reportFilepath (sample_env (Returned sample_chart)) (Some ''/out'') ''/srv/reports/../report.html''
     = ''/srv/report.html'' \<and>
   reportFilepath (sample_env (Returned sample_chart)) (Some ''/out'') ''stats/report.html''
     = ''/out/stats/report.html'' \<and>
   reportFilepath (sample_env (Returned sample_chart)) None ''report.html'' = ''/work/report.html'' \<and>
   reportFilepath (sample_env (Returned sample_chart)) (Some ''dist'') ''report.html''
     = ''/work/dist/report.html''"
  using reportFilepath_resolve
      [of "''/srv/reports/../report.html''" "sample_env (Returned sample_chart)" "Some ''/out''"]
    reportFilepath_resolve
      [of "''stats/report.html''" "sample_env (Returned sample_chart)" "Some ''/out''"]
    reportFilepath_resolve
      [of "''report.html''" "sample_env (Returned sample_chart)" None]
    reportFilepath_resolve
      [of "''report.html''" "sample_env (Returned sample_chart)" "Some ''dist''"]
  by (simp add: bundleDir_or_cwd_def sample_env_def normalizeString_def normalize_step_def
      path_join_def path_normalize_def Let_def)

text \<open>
  C6 as the specification states it fails for an absolute report file name: with the
  bundle directory \<^verbatim>\<open>/out\<close> and the file name \<^verbatim>\<open>/tmp/report.html\<close> the report is written
  at \<^verbatim>\<open>/tmp/report.html\<close>, and nothing goes to the join \<^verbatim>\<open>/out/tmp/report.html\<close>.
\<close>

theorem reportFilepath_absolute_filename:
  "reportFilepath (sample_env (Returned sample_chart)) (Some ''/out'') ''/tmp/report.html''
     = ''/tmp/report.html'' \<and>
   path_join [''/out'', ''/tmp/report.html''] = ''/out/tmp/report.html'' \<and>
   trace (snd (generateReport (sample_env (Returned sample_chart)) sample_stats
                 (Some (empty_opts\<lparr>o_bundleDir := Some ''/out'',
                                    o_reportFilename := Some ''/tmp/report.html''\<rparr>))
                 sample_world))
     = [Mkdir ''/tmp'',
        WriteFile ''/tmp/report.html''
          (renderViewer (sample_env (Returned sample_chart))
             \<lparr>ra_mode = ''static'', ra_title = JUndefined, ra_chartData = sample_chart,
              ra_entrypoints = JArr [JStr ''main''], ra_defaultSizes = JStr ''parsed'',
              ra_compressionAlgorithm = JUndefined, ra_enableWebSocket = False\<rparr>),
        Log LInfo (JStr ''Webpack Bundle Analyzer saved report to /tmp/report.html''),
        OpenUrl ''file:///tmp/report.html'']"
proof -
  let ?E = "sample_env (Returned sample_chart)"
  let ?opts = "Some (empty_opts\<lparr>o_bundleDir := Some ''/out'',
                                o_reportFilename := Some ''/tmp/report.html''\<rparr>)"
  have p: "reportFilepath ?E (Some ''/out'') ''/tmp/report.html'' = ''/tmp/report.html''"
    by (simp add: reportFilepath_def bundleDir_or_cwd_def path_resolve_def normalizeString_def
        normalize_step_def)
  have j: "path_join [''/out'', ''/tmp/report.html''] = ''/out/tmp/report.html''"
    by (simp add: path_join_def path_normalize_def normalizeString_def normalize_step_def Let_def)
  have g: "getChartData ?E (analyzerOpts_of (opts_or_empty ?opts)) sample_stats
             (o_bundleDir (opts_or_empty ?opts)) sample_world = (Returns sample_chart, sample_world)"
    by (simp add: getChartData_def Let_def sample_env_def emit_logs_def sample_chart_def)
  have e: "getEntrypoints sample_stats = Returns (JArr [JStr ''main''])"
    by (simp add: getEntrypoints_def get_prop_def own_prop_def sample_stats_def)
  have t: "truthy sample_chart" by (simp add: sample_chart_def)
  have f: "o_reportFilename (opts_or_empty ?opts) = Some ''/tmp/report.html''"
    by (simp add: opts_or_empty_def)
  have q: "''/tmp/report.html'' = reportFilepath ?E (o_bundleDir (opts_or_empty ?opts)) ''/tmp/report.html''"
    by (simp add: p opts_or_empty_def)
  have m: "mkdir_error ?E (path_dirname ''/tmp/report.html'') sample_world = None"
    and w: "writeFile_error ?E ''/tmp/report.html''
              (emit (Mkdir (path_dirname ''/tmp/report.html'')) sample_world) = None"
    by (simp_all add: sample_env_def)
  have d: "path_dirname ''/tmp/report.html'' = ''/tmp''"
    by (simp add: path_dirname_def)
  have b: "bold ?E s = s" for s by (simp add: sample_env_def)
  show ?thesis
    using generateReport_writes [OF g e t f q m w refl]
    by (simp add: p j d b opts_or_empty_def empty_opts_def default_to_def default_val_def
        resolveDefaultSizes_def sample_world_def)
qed

text \<open>
  C7. When the pipeline yields chart data and the file system refuses nothing, the JSON
  report generator creates the directory \<^verbatim>\<open>path.dirname(reportFilename)\<close> with its missing
  parents, then writes the JSON text of the chart data to \<^verbatim>\<open>reportFilename\<close>, replacing
  what the file held, then logs at info level the message that ends with
  \<^verbatim>\<open>reportFilename\<close> as it was given. Neither path is resolved against the bundle
  directory. The call returns normally and has no other effect after the pipeline's.
\<close>

theorem generateJSONReport_writes:
  assumes "getChartData E (analyzerOpts_of (opts_or_empty opts)) bundleStats
             (o_bundleDir (opts_or_empty opts)) w = (Returns chartData, w1)"
    and "truthy chartData"
    and "o_reportFilename (opts_or_empty opts) = Some reportFilename"
    and "mkdir_error E (path_dirname reportFilename) w1 = None"
    and "writeFile_error E reportFilename (emit (Mkdir (path_dirname reportFilename)) w1) = None"
  shows "generateJSONReport E bundleStats opts w =
     (Returns JUndefined,
      w1\<lparr>trace := trace w1 @
           [Mkdir (path_dirname reportFilename),
            WriteFile reportFilename (JSON_stringify E chartData),
            Log LInfo (JStr (bold E ''Webpack Bundle Analyzer'' @ '' saved JSON report to ''
                             @ bold E reportFilename))],
         files := (files w1)(reportFilename \<mapsto> JSON_stringify E chartData)\<rparr>)"
  using assms
  by (simp add: generateJSONReport_def Let_def fs_mkdir_def fs_writeFile_def emit_def logger_info_def)

theorem generateJSONReport_writes_witness:
  "generateJSONReport (sample_env (Returned sample_chart)) sample_stats
     (Some (empty_opts\<lparr>o_bundleDir := Some ''/out'', o_reportFilename := Some ''reports/stats.json''\<rparr>))
     sample_world =
   (Returns JUndefined,
    \<lparr>trace =
       [Mkdir ''reports'',
        WriteFile ''reports/stats.json'' (sample_stringify sample_chart),
        Log LInfo (JStr ''Webpack Bundle Analyzer saved JSON report to reports/stats.json'')],
     files = (\<lambda>file. None)(''reports/stats.json'' \<mapsto> sample_stringify sample_chart)\<rparr>)"
proof -
  let ?E = "sample_env (Returned sample_chart)"
  let ?opts = "Some (empty_opts\<lparr>o_bundleDir := Some ''/out'',
                                o_reportFilename := Some ''reports/stats.json''\<rparr>)"
  have g: "getChartData ?E (analyzerOpts_of (opts_or_empty ?opts)) sample_stats
             (o_bundleDir (opts_or_empty ?opts)) sample_world = (Returns sample_chart, sample_world)"
    by (simp add: getChartData_def Let_def sample_env_def emit_logs_def sample_chart_def)
  have t: "truthy sample_chart" by (simp add: sample_chart_def)
  have f: "o_reportFilename (opts_or_empty ?opts) = Some ''reports/stats.json''"
    by (simp add: opts_or_empty_def)
  have m: "mkdir_error ?E (path_dirname ''reports/stats.json'') sample_world = None"
    and w: "writeFile_error ?E ''reports/stats.json''
              (emit (Mkdir (path_dirname ''reports/stats.json'')) sample_world) = None"
    by (simp_all add: sample_env_def)
  have d: "path_dirname ''reports/stats.json'' = ''reports''"
    by (simp add: path_dirname_def)
  have b: "bold ?E s = s" for s by (simp add: sample_env_def)
  have j: "JSON_stringify ?E = sample_stringify" by (simp add: sample_env_def)
  show ?thesis
    using generateJSONReport_writes [OF g t f m w]
    by (simp add: d b j sample_world_def del: sample_stringify.simps)
qed

end
